theory Spec2Isabelle
  imports Main
begin

section \<open>Python values used by the request handlers of backend/app.py\<close>

text \<open>
  The handlers of \<^verbatim>\<open>backend/app.py\<close> pass dictionaries, lists, strings, numbers and
  \<^verbatim>\<open>None\<close> between the extraction helpers, the recommendation service and
  \<^verbatim>\<open>jsonify\<close>. These values are modelled by one datatype; a dictionary is an
  association list in insertion order. Strings are \<open>char list\<close> (bytes), numbers are
  integers. A raised \<^verbatim>\<open>Exception\<close> is \<open>Inl msg\<close> with \<open>msg = str(e)\<close>.
\<close>

datatype json =
    JNull
  | JBool bool
  | JNum int
  | JStr string
  | JList "json list"
  | JObj "(string \<times> json) list"

type_synonym dict = "(string \<times> json) list"

text \<open>\<^verbatim>\<open>d.get(k, default)\<close> on a dictionary.\<close>

definition dict_get :: "dict \<Rightarrow> string \<Rightarrow> json \<Rightarrow> json" where
  "dict_get d k dflt = (case map_of d k of None \<Rightarrow> dflt | Some v \<Rightarrow> v)"

text \<open>\<^verbatim>\<open>d[k] = v\<close>: an existing key keeps its place, a new key goes last.\<close>

fun dict_set :: "dict \<Rightarrow> string \<Rightarrow> json \<Rightarrow> dict" where
  "dict_set [] k v = [(k, v)]"
| "dict_set ((k', v') # d) k v = (if k' = k then (k, v) # d else (k', v') # dict_set d k v)"

text \<open>A string between single quotes, as exception messages print names.\<close>

definition quoted :: "string \<Rightarrow> string" where
  "quoted s = CHR 0x27 # s @ [CHR 0x27]"

fun type_name :: "json \<Rightarrow> string" where
  "type_name JNull = ''NoneType''"
| "type_name (JBool _) = ''bool''"
| "type_name (JNum _) = ''int''"
| "type_name (JStr _) = ''str''"
| "type_name (JList _) = ''list''"
| "type_name (JObj _) = ''dict''"

text \<open>Truth value of a Python object, as \<^verbatim>\<open>if x\<close> and \<^verbatim>\<open>bool(x)\<close> compute it.\<close>

fun py_truthy :: "json \<Rightarrow> bool" where
  "py_truthy JNull = False"
| "py_truthy (JBool b) = b"
| "py_truthy (JNum n) = (n \<noteq> 0)"
| "py_truthy (JStr s) = (s \<noteq> [])"
| "py_truthy (JList xs) = (xs \<noteq> [])"
| "py_truthy (JObj d) = (d \<noteq> [])"

text \<open>\<^verbatim>\<open>x.get(k, default)\<close> on any object: only a dictionary has the method.\<close>

fun py_get :: "json \<Rightarrow> string \<Rightarrow> json \<Rightarrow> string + json" where
  "py_get (JObj d) k dflt = Inr (dict_get d k dflt)"
| "py_get v k dflt = Inl (quoted (type_name v) @ '' object has no attribute '' @ quoted ''get'')"

text \<open>\<^verbatim>\<open>list(x.keys())\<close>.\<close>

fun py_keys :: "json \<Rightarrow> string + json list" where
  "py_keys (JObj d) = Inr (map (\<lambda>kv. JStr (fst kv)) d)"
| "py_keys v = Inl (quoted (type_name v) @ '' object has no attribute '' @ quoted ''keys'')"

text \<open>\<^verbatim>\<open>len(x)\<close>: defined on strings, lists and dictionaries, a TypeError otherwise.\<close>

fun py_len :: "json \<Rightarrow> string + nat" where
  "py_len (JStr s) = Inr (length s)"
| "py_len (JList xs) = Inr (length xs)"
| "py_len (JObj d) = Inr (length d)"
| "py_len v = Inl (''object of type '' @ quoted (type_name v) @ '' has no len()'')"

text \<open>\<^verbatim>\<open>x[:3]\<close>.\<close>

fun py_slice3 :: "json \<Rightarrow> string + json" where
  "py_slice3 (JList xs) = Inr (JList (take 3 xs))"
| "py_slice3 (JStr s) = Inr (JStr (take 3 s))"
| "py_slice3 (JObj d) = Inl (''unhashable type: '' @ quoted ''slice'')"
| "py_slice3 v = Inl (quoted (type_name v) @ '' object is not subscriptable'')"

text \<open>The elements a \<^verbatim>\<open>for\<close> loop over \<open>x\<close> visits.\<close>

fun py_iter :: "json \<Rightarrow> string + json list" where
  "py_iter (JList xs) = Inr xs"
| "py_iter (JStr s) = Inr (map (\<lambda>c. JStr [c]) s)"
| "py_iter (JObj d) = Inr (map (\<lambda>kv. JStr (fst kv)) d)"
| "py_iter v = Inl (quoted (type_name v) @ '' object is not iterable'')"

text \<open>\<^verbatim>\<open>x[0]\<close>; a dictionary decoded from JSON has string keys only, so key 0 is missing.\<close>

fun py_index0 :: "json \<Rightarrow> string + json" where
  "py_index0 (JList []) = Inl ''list index out of range''"
| "py_index0 (JList (x # xs)) = Inr x"
| "py_index0 (JStr []) = Inl ''string index out of range''"
| "py_index0 (JStr (c # cs)) = Inr (JStr [c])"
| "py_index0 (JObj d) = Inl ''0''"
| "py_index0 v = Inl (quoted (type_name v) @ '' object is not subscriptable'')"

text \<open>A list comprehension whose element expression may raise: the first raise ends it.\<close>

fun map_exn :: "('a \<Rightarrow> string + 'b) \<Rightarrow> 'a list \<Rightarrow> string + 'b list" where
  "map_exn f [] = Inr []"
| "map_exn f (x # xs) =
     (case f x of
        Inl e \<Rightarrow> Inl e
      | Inr y \<Rightarrow> (case map_exn f xs of Inl e \<Rightarrow> Inl e | Inr ys \<Rightarrow> Inr (y # ys)))"

text \<open>\<^verbatim>\<open>sep.join(xs)\<close>.\<close>

fun py_join :: "string \<Rightarrow> string list \<Rightarrow> string" where
  "py_join sep [] = []"
| "py_join sep [x] = x"
| "py_join sep (x # y # xs) = x @ sep @ py_join sep (y # xs)"

text \<open>\<^verbatim>\<open>str(n)\<close> for an integer.\<close>

definition digit_char :: "nat \<Rightarrow> char" where
  "digit_char d = ''0123456789'' ! d"

fun str_nat :: "nat \<Rightarrow> string" where
  "str_nat n = (if n < 10 then [digit_char n] else str_nat (n div 10) @ [digit_char (n mod 10)])"

declare str_nat.simps [simp del]

definition str_int :: "int \<Rightarrow> string" where
  "str_int i = (if i < 0 then CHR ''-'' # str_nat (nat (- i)) else str_nat (nat i))"

section \<open>Paths: os.path.join, os.path.splitext, str.lower\<close>

text \<open>
  The POSIX versions of the two \<^verbatim>\<open>os.path\<close> functions the handlers call.
  \<^verbatim>\<open>join(a, b)\<close>: an absolute \<open>b\<close> replaces \<open>a\<close>; otherwise the two are
  concatenated, with a separator unless \<open>a\<close> is empty or already ends in one.
\<close>

definition path_join :: "string \<Rightarrow> string \<Rightarrow> string" where
  "path_join a b =
     (if b \<noteq> [] \<and> hd b = CHR ''/'' then b
      else if a = [] \<or> last a = CHR ''/'' then a @ b
      else a @ ''/'' @ b)"

text \<open>
  \<^verbatim>\<open>s.rfind(c)\<close>: the highest index of \<open>c\<close> in \<open>s\<close>, or \<open>-1\<close>; the scan
  keeps the index it is at and the last index where it saw \<open>c\<close>.
\<close>

fun rfind_from :: "int \<Rightarrow> int \<Rightarrow> string \<Rightarrow> char \<Rightarrow> int" where
  "rfind_from i found [] c = found"
| "rfind_from i found (x # xs) c = rfind_from (i + 1) (if x = c then i else found) xs c"

definition rfind :: "string \<Rightarrow> char \<Rightarrow> int" where
  "rfind s c = rfind_from 0 (- 1) s c"

text \<open>
  \<^verbatim>\<open>splitext(p)\<close>: the extension starts at the last dot, when that dot comes after the
  last separator and some character between the two is not a dot (leading dots of the
  file name are skipped); otherwise the extension is empty.
\<close>

definition splitext :: "string \<Rightarrow> string \<times> string" where
  "splitext p =
     (let sepIndex = rfind p CHR ''/'';
          dotIndex = rfind p CHR ''.''
      in if sepIndex < dotIndex \<and>
            filter (\<lambda>c. c \<noteq> CHR ''.'')
              (take (nat (dotIndex - (sepIndex + 1))) (drop (nat (sepIndex + 1)) p)) \<noteq> []
         then (take (nat dotIndex) p, drop (nat dotIndex) p)
         else (p, []))"

text \<open>\<^verbatim>\<open>str.lower\<close> on the bytes of an ASCII string.\<close>

definition lower_char :: "char \<Rightarrow> char" where
  "lower_char c =
     (case map_of (zip ''ABCDEFGHIJKLMNOPQRSTUVWXYZ'' ''abcdefghijklmnopqrstuvwxyz'') c of
        None \<Rightarrow> c
      | Some l \<Rightarrow> l)"

definition lower :: "string \<Rightarrow> string" where
  "lower s = map lower_char s"

section \<open>The collaborators of the handlers\<close>

text \<open>
  \<^verbatim>\<open>utils/resume_extractor.py\<close>, \<^verbatim>\<open>utils/gemini_service.py\<close> and
  \<^verbatim>\<open>config.py\<close> are imported by \<^verbatim>\<open>app.py\<close>; the handlers are verified for every
  behaviour of them, so they are parameters. Each call either raises (\<open>Inl\<close> of the
  message) or returns.
  \<^item> \<open>extract_resume_text\<close> gets the path and what the disk holds there; it returns a
    string or \<^verbatim>\<open>None\<close>, and is assumed to leave the disk as it is.
  \<^item> \<open>clean_extracted_text\<close> gets what \<open>extract_resume_text\<close> returned
    (\<^verbatim>\<open>/extract-skills\<close> passes it on unchecked, so possibly \<^verbatim>\<open>None\<close>).
  \<^item> \<open>extract_basic_info\<close> returns the dictionary the handlers read with \<^verbatim>\<open>.get\<close>.
  \<^item> \<open>gemini_service\<close> is \<^verbatim>\<open>None\<close> or an object with four methods.
  \<^item> \<open>save_error\<close> and \<open>remove_error\<close> say for which paths \<^verbatim>\<open>file.save\<close> and
    \<^verbatim>\<open>os.remove\<close> raise; \<open>clock_ms\<close> is \<^verbatim>\<open>int(time.time() * 1000)\<close>.

  Not modelled: what \<^verbatim>\<open>print\<close> writes; the upload folder as a directory (line 22
  creates it when the module is loaded, so \<^verbatim>\<open>/extract-skills\<close> finds it); values that
  \<^verbatim>\<open>jsonify\<close> cannot serialize, which the type of JSON values excludes.
\<close>

record gemini =
  generate_career_recommendations :: "json \<Rightarrow> dict \<Rightarrow> string \<Rightarrow> string + json"
  suggest_skill_improvements :: "json \<Rightarrow> json \<Rightarrow> dict \<Rightarrow> string + json"
  analyze_resume_gaps :: "json \<Rightarrow> dict \<Rightarrow> string \<Rightarrow> string + json"
  generate_learning_path :: "json \<Rightarrow> json \<Rightarrow> string \<Rightarrow> string + json"

record env =
  UPLOAD_FOLDER :: string
  clock_ms :: int
  extract_resume_text :: "string \<Rightarrow> string option \<Rightarrow> string + string option"
  clean_extracted_text :: "string option \<Rightarrow> string + string"
  extract_basic_info :: "string \<Rightarrow> string option \<Rightarrow> string + dict"
  gemini_service :: "gemini option"
  save_error :: "string \<Rightarrow> string option"
  remove_error :: "string \<Rightarrow> string option"

text \<open>
  The multipart field \<^verbatim>\<open>resume\<close> and the form fields of a request. The field may be
  missing (\<open>None\<close>); an upload with an empty file name is false under \<^verbatim>\<open>if not file\<close>
  as well.
\<close>

record upload =
  filename :: string
  content :: string

record form =
  industries :: "string option"
  goals :: "string option"
  location :: "string option"

text \<open>
  What a handler hands back to Flask: a JSON body with its status, or an exception that
  no \<^verbatim>\<open>except\<close> clause of the handler caught.
\<close>

datatype result = Response nat json | Uncaught string

text \<open>The upload folder, and the log of what a request did to it and to the extractor.\<close>

datatype event = SaveFile string | ExtractText string | RemoveFile string

record world =
  disk :: "string \<Rightarrow> string option"
  events :: "event list"

definition error_body :: "string \<Rightarrow> json" where
  "error_body msg = JObj [(''error'', JStr msg)]"

text \<open>\<^verbatim>\<open>if not extracted_text\<close>: \<^verbatim>\<open>None\<close> or the empty string.\<close>

definition not_text :: "string option \<Rightarrow> bool" where
  "not_text t = (case t of None \<Rightarrow> True | Some s \<Rightarrow> s = [])"

text \<open>\<^verbatim>\<open>file.save(file_path)\<close>; a save that raises is taken to leave the disk as it was.\<close>

definition file_save :: "env \<Rightarrow> upload \<Rightarrow> string \<Rightarrow> world \<Rightarrow> string + world" where
  "file_save env u file_path w =
     (case save_error env file_path of
        Some e \<Rightarrow> Inl e
      | None \<Rightarrow>
          Inr (w\<lparr>disk := (disk w)(file_path \<mapsto> content u),
                 events := events w @ [SaveFile file_path]\<rparr>))"

text \<open>The call \<^verbatim>\<open>extract_resume_text(file_path)\<close>, logged.\<close>

definition call_extract :: "env \<Rightarrow> string \<Rightarrow> world \<Rightarrow> (string + string option) \<times> world" where
  "call_extract env file_path w =
     (extract_resume_text env file_path (disk w file_path),
      w\<lparr>events := events w @ [ExtractText file_path]\<rparr>)"

text \<open>
  The \<^verbatim>\<open>finally\<close> block of the three handlers: when the path exists,
  \<^verbatim>\<open>os.remove\<close> is called; an exception of \<^verbatim>\<open>os.remove\<close> is caught and only printed,
  and the file stays.
\<close>

definition remove_upload :: "env \<Rightarrow> string \<Rightarrow> world \<Rightarrow> world" where
  "remove_upload env file_path w =
     (if disk w file_path = None then w
      else
        (case remove_error env file_path of
           Some e \<Rightarrow> w\<lparr>events := events w @ [RemoveFile file_path]\<rparr>
         | None \<Rightarrow>
             w\<lparr>disk := (disk w)(file_path := None),
               events := events w @ [RemoveFile file_path]\<rparr>))"

section \<open>POST /process\<close>

text \<open>\<^verbatim>\<open>x or "Not specified"\<close> for a form field, and the field as \<^verbatim>\<open>jsonify\<close> writes it.\<close>

definition or_not_specified :: "string option \<Rightarrow> json" where
  "or_not_specified x =
     (case x of None \<Rightarrow> JStr ''Not specified''
      | Some s \<Rightarrow> if s = [] then JStr ''Not specified'' else JStr s)"

definition opt_json :: "string option \<Rightarrow> json" where
  "opt_json x = (case x of None \<Rightarrow> JNull | Some s \<Rightarrow> JStr s)"

definition preferences_of :: "form \<Rightarrow> dict" where
  "preferences_of f =
     [(''industries'', or_not_specified (industries f)),
      (''goals'', or_not_specified (goals f)),
      (''location'', or_not_specified (location f))]"

text \<open>The argument \<^verbatim>\<open>target_roles\<close> of \<^verbatim>\<open>suggest_skill_improvements\<close> (line 108).\<close>

definition target_roles :: "json \<Rightarrow> string + json" where
  "target_roles career_recs =
     (if py_truthy career_recs then
        (case py_get career_recs ''recommended_roles'' (JList []) of
           Inl e \<Rightarrow> Inl e
         | Inr roles \<Rightarrow>
             (case py_slice3 roles of
                Inl e \<Rightarrow> Inl e
              | Inr first3 \<Rightarrow>
                  (case py_iter first3 of
                     Inl e \<Rightarrow> Inl e
                   | Inr rs \<Rightarrow>
                       (case map_exn (\<lambda>role. py_get role ''title'' (JStr [])) rs of
                          Inl e \<Rightarrow> Inl e
                        | Inr titles \<Rightarrow> Inr (JList titles)))))
      else Inr (JList [JStr ''Software Developer'']))"

text \<open>The variable \<^verbatim>\<open>top_role\<close> (line 122).\<close>

definition top_role :: "json \<Rightarrow> string + json" where
  "top_role career_recs =
     (if py_truthy career_recs then
        (case py_get career_recs ''recommended_roles'' (JList [JObj []]) of
           Inl e \<Rightarrow> Inl e
         | Inr roles \<Rightarrow>
             (case py_index0 roles of
                Inl e \<Rightarrow> Inl e
              | Inr role \<Rightarrow> py_get role ''title'' (JStr ''Software Developer'')))
      else Inr (JStr ''Software Developer''))"

text \<open>
  The inner \<^verbatim>\<open>try\<close> body (lines 97 to 130): the dictionary
  \<^verbatim>\<open>ai_recommendations\<close> as far as it was filled, and the exception that stopped it,
  if one did.
\<close>

definition ai_try :: "gemini \<Rightarrow> dict \<Rightarrow> dict \<Rightarrow> string \<Rightarrow> dict \<times> string option" where
  "ai_try gs basic_info preferences clean_text =
     (case generate_career_recommendations gs
             (dict_get basic_info ''skills_summary'' (JObj [])) preferences ''intermediate'' of
        Inl e \<Rightarrow> ([], Some e)
      | Inr career_recs \<Rightarrow>
          let ai1 = dict_set [] ''career_recommendations'' career_recs in
          (case target_roles career_recs of
             Inl e \<Rightarrow> (ai1, Some e)
           | Inr roles \<Rightarrow>
               (case suggest_skill_improvements gs
                       (dict_get basic_info ''skills'' (JList [])) roles preferences of
                  Inl e \<Rightarrow> (ai1, Some e)
                | Inr skill_suggestions \<Rightarrow>
                    let ai2 = dict_set ai1 ''skill_improvements'' skill_suggestions in
                    (case analyze_resume_gaps gs
                            (dict_get basic_info ''skills_summary'' (JObj []))
                            preferences clean_text of
                       Inl e \<Rightarrow> (ai2, Some e)
                     | Inr resume_analysis \<Rightarrow>
                         let ai3 = dict_set ai2 ''resume_analysis'' resume_analysis in
                         (case top_role career_recs of
                            Inl e \<Rightarrow> (ai3, Some e)
                          | Inr role \<Rightarrow>
                              (case generate_learning_path gs
                                      (dict_get basic_info ''skills'' (JList []))
                                      role ''balanced'' of
                                 Inl e \<Rightarrow> (ai3, Some e)
                               | Inr learning_path \<Rightarrow>
                                   (dict_set ai3 ''learning_path'' learning_path, None)))))))"

text \<open>Lines 94 to 133: nothing without a service; with one, the handler records a raise.\<close>

definition ai_recommendations :: "gemini option \<Rightarrow> dict \<Rightarrow> dict \<Rightarrow> string \<Rightarrow> dict" where
  "ai_recommendations service basic_info preferences clean_text =
     (case service of
        None \<Rightarrow> []
      | Some gs \<Rightarrow>
          (case ai_try gs basic_info preferences clean_text of
             (ai, None) \<Rightarrow> ai
           | (ai, Some e) \<Rightarrow> dict_set ai ''error'' (JStr e)))"

text \<open>The entry \<^verbatim>\<open>extracted_info\<close> of the response (lines 138 to 149).\<close>

definition extracted_info :: "string \<Rightarrow> dict \<Rightarrow> string + dict" where
  "extracted_info clean_text basic_info =
     (case py_len (dict_get basic_info ''skills'' (JList [])) of
        Inl e \<Rightarrow> Inl e
      | Inr n_skills \<Rightarrow>
          (case py_len (dict_get basic_info ''experience_keywords'' (JList [])) of
             Inl e \<Rightarrow> Inl e
           | Inr n_experience \<Rightarrow>
               (case py_len (dict_get basic_info ''education_keywords'' (JList [])) of
                  Inl e \<Rightarrow> Inl e
                | Inr n_education \<Rightarrow>
                    Inr [(''text_length'', JNum (int (length clean_text))),
                         (''email'', dict_get basic_info ''email'' JNull),
                         (''detected_skills'', dict_get basic_info ''skills'' (JList [])),
                         (''skills_by_category'', dict_get basic_info ''skills_summary'' (JObj [])),
                         (''total_skills_found'', JNum (int n_skills)),
                         (''has_experience_keywords'', JBool (0 < n_experience)),
                         (''has_education_keywords'', JBool (0 < n_education)),
                         (''experience_entries'',
                            dict_get basic_info ''experience_entries'' (JList [])),
                         (''project_entries'', dict_get basic_info ''project_entries'' (JList [])),
                         (''experience_keywords'',
                            dict_get basic_info ''experience_keywords'' (JList []))])))"

text \<open>The dictionary \<^verbatim>\<open>response\<close> (lines 136 to 157).\<close>

definition process_response :: "form \<Rightarrow> dict \<Rightarrow> dict \<Rightarrow> json" where
  "process_response f info ai =
     JObj [(''summary'', JStr ''Resume processed successfully with AI analysis''),
           (''extracted_info'', JObj info),
           (''preferences'',
              JObj [(''industries'', opt_json (industries f)),
                    (''goals'', opt_json (goals f)),
                    (''location'', opt_json (location f))]),
           (''ai_insights'', JObj ai)]"

definition processing_error :: "string \<Rightarrow> result" where
  "processing_error e = Response 500 (error_body (''Error processing resume: '' @ e))"

text \<open>
  The outer \<^verbatim>\<open>try\<close> of \<^verbatim>\<open>process_resume\<close> from the result of
  \<^verbatim>\<open>extract_resume_text\<close> on. The \<^verbatim>\<open>print\<close> of line 83 evaluates
  \<^verbatim>\<open>len(basic_info.get('skills', []))\<close> before the service is called.
\<close>

definition process_try :: "env \<Rightarrow> form \<Rightarrow> string + string option \<Rightarrow> result" where
  "process_try env f extraction =
     (case extraction of
        Inl e \<Rightarrow> processing_error e
      | Inr extracted_text \<Rightarrow>
          if not_text extracted_text
          then Response 400 (error_body ''Could not extract text from resume'')
          else
            (case clean_extracted_text env extracted_text of
               Inl e \<Rightarrow> processing_error e
             | Inr clean_text \<Rightarrow>
                 (case extract_basic_info env clean_text extracted_text of
                    Inl e \<Rightarrow> processing_error e
                  | Inr basic_info \<Rightarrow>
                      (case py_len (dict_get basic_info ''skills'' (JList [])) of
                         Inl e \<Rightarrow> processing_error e
                       | Inr printed \<Rightarrow>
                           let ai = ai_recommendations (gemini_service env) basic_info
                                      (preferences_of f) clean_text
                           in (case extracted_info clean_text basic_info of
                                 Inl e \<Rightarrow> processing_error e
                               | Inr info \<Rightarrow> Response 200 (process_response f info ai))))))"

definition process_resume :: "env \<Rightarrow> world \<Rightarrow> upload option \<Rightarrow> form \<Rightarrow> result \<times> world" where
  "process_resume env w file f =
     (case file of
        None \<Rightarrow> (Response 400 (error_body ''No resume uploaded''), w)
      | Some u \<Rightarrow>
          if filename u = [] then (Response 400 (error_body ''No resume uploaded''), w)
          else
            let file_path = path_join (UPLOAD_FOLDER env) (filename u) in
            (case file_save env u file_path w of
               Inl e \<Rightarrow> (Uncaught e, w)
             | Inr w1 \<Rightarrow>
                 (case call_extract env file_path w1 of
                    (extraction, w2) \<Rightarrow>
                      (process_try env f extraction, remove_upload env file_path w2))))"

section \<open>POST /extract-skills\<close>

definition skills_error :: "string \<Rightarrow> result" where
  "skills_error e = Response 500 (error_body (''Error extracting skills: '' @ e))"

text \<open>The name of line 188, built from the clock alone.\<close>

definition generated_name :: "env \<Rightarrow> string" where
  "generated_name env = ''resume-'' @ str_int (clock_ms env) @ ''.pdf''"

text \<open>
  The \<^verbatim>\<open>try\<close> of \<^verbatim>\<open>extract_skills\<close> from the result of
  \<^verbatim>\<open>extract_resume_text\<close> on; the handler does not test the extracted text.
\<close>

definition skills_try :: "env \<Rightarrow> string + string option \<Rightarrow> result" where
  "skills_try env extraction =
     (case extraction of
        Inl e \<Rightarrow> skills_error e
      | Inr extracted_text \<Rightarrow>
          (case clean_extracted_text env extracted_text of
             Inl e \<Rightarrow> skills_error e
           | Inr clean_text \<Rightarrow>
               (case extract_basic_info env clean_text extracted_text of
                  Inl e \<Rightarrow> skills_error e
                | Inr basic_info \<Rightarrow>
                    (case py_len (dict_get basic_info ''skills'' (JList [])) of
                       Inl e \<Rightarrow> skills_error e
                     | Inr n_skills \<Rightarrow>
                         Response 200
                           (JObj [(''skills'', dict_get basic_info ''skills'' (JList [])),
                                  (''skills_by_category'',
                                     dict_get basic_info ''skills_summary'' (JObj [])),
                                  (''total_skills_found'', JNum (int n_skills)),
                                  (''extracted_info'',
                                     JObj [(''email'', dict_get basic_info ''email'' (JStr [])),
                                           (''detected_skills'',
                                              dict_get basic_info ''skills'' (JList []))])])))))"

definition extract_skills :: "env \<Rightarrow> world \<Rightarrow> upload option \<Rightarrow> result \<times> world" where
  "extract_skills env w file =
     (case file of
        None \<Rightarrow> (Response 400 (error_body ''No resume file provided''), w)
      | Some u \<Rightarrow>
          if filename u = [] then (Response 400 (error_body ''No resume file provided''), w)
          else
            let file_path = path_join (UPLOAD_FOLDER env) (generated_name env) in
            (case file_save env u file_path w of
               Inl e \<Rightarrow> (Uncaught e, w)
             | Inr w1 \<Rightarrow>
                 (case call_extract env file_path w1 of
                    (extraction, w2) \<Rightarrow>
                      (skills_try env extraction, remove_upload env file_path w2))))"

section \<open>POST /extract-resume\<close>

definition allowed_extensions :: "string list" where
  "allowed_extensions = [''.pdf'', ''.docx'', ''.doc'']"

definition file_extension :: "string \<Rightarrow> string" where
  "file_extension name = lower (snd (splitext name))"

definition unsupported_format :: result where
  "unsupported_format =
     Response 400
       (error_body (''Unsupported file format. Allowed: '' @ py_join '', '' allowed_extensions))"

definition resume_error :: "string \<Rightarrow> result" where
  "resume_error e = Response 500 (error_body (''Error extracting resume: '' @ e))"

definition no_text_in_resume :: result where
  "no_text_in_resume =
     Response 400
       (error_body
          (''Could not extract text from resume. '' @
           ''The file might be corrupted or contain only images.''))"

text \<open>The dictionary \<^verbatim>\<open>response\<close> of \<^verbatim>\<open>extract_resume\<close> (lines 259 to 283).\<close>

definition resume_response :: "upload \<Rightarrow> string \<Rightarrow> dict \<Rightarrow> string + json" where
  "resume_response u clean_text basic_info =
     (case py_len (dict_get basic_info ''skills'' (JList [])) of
        Inl e \<Rightarrow> Inl e
      | Inr n_skills \<Rightarrow>
          (case py_keys (dict_get basic_info ''skills_summary'' (JObj [])) of
             Inl e \<Rightarrow> Inl e
           | Inr categories \<Rightarrow>
               Inr (JObj
                 [(''success'', JBool True),
                  (''file_info'',
                     JObj [(''filename'', JStr (filename u)),
                           (''file_type'', JStr (file_extension (filename u))),
                           (''text_length'', JNum (int (length clean_text)))]),
                  (''extracted_content'',
                     JObj [(''full_text'', JStr clean_text),
                           (''basic_info'',
                              JObj [(''email'', dict_get basic_info ''email'' JNull),
                                    (''skills'', dict_get basic_info ''skills'' (JList [])),
                                    (''skills_by_category'',
                                       dict_get basic_info ''skills_summary'' (JObj [])),
                                    (''experience_keywords'',
                                       dict_get basic_info ''experience_keywords'' (JList [])),
                                    (''education_keywords'',
                                       dict_get basic_info ''education_keywords'' (JList []))])]),
                  (''analysis'',
                     JObj [(''has_contact_info'',
                              JBool (py_truthy (dict_get basic_info ''email'' JNull))),
                           (''skills_detected'', JNum (int n_skills)),
                           (''appears_complete'', JBool (200 < length clean_text)),
                           (''top_skill_categories'', JList (take 3 categories)),
                           (''has_technical_background'', JBool (5 < n_skills))])])))"

definition resume_try :: "env \<Rightarrow> upload \<Rightarrow> string + string option \<Rightarrow> result" where
  "resume_try env u extraction =
     (case extraction of
        Inl e \<Rightarrow> resume_error e
      | Inr extracted_text \<Rightarrow>
          if not_text extracted_text then no_text_in_resume
          else
            (case clean_extracted_text env extracted_text of
               Inl e \<Rightarrow> resume_error e
             | Inr clean_text \<Rightarrow>
                 (case extract_basic_info env clean_text extracted_text of
                    Inl e \<Rightarrow> resume_error e
                  | Inr basic_info \<Rightarrow>
                      (case resume_response u clean_text basic_info of
                         Inl e \<Rightarrow> resume_error e
                       | Inr response \<Rightarrow> Response 200 response))))"

definition extract_resume :: "env \<Rightarrow> world \<Rightarrow> upload option \<Rightarrow> result \<times> world" where
  "extract_resume env w file =
     (case file of
        None \<Rightarrow> (Response 400 (error_body ''No resume uploaded''), w)
      | Some u \<Rightarrow>
          if filename u = [] then (Response 400 (error_body ''No resume uploaded''), w)
          else if file_extension (filename u) \<notin> set allowed_extensions
          then (unsupported_format, w)
          else
            let file_path = path_join (UPLOAD_FOLDER env) (filename u) in
            (case file_save env u file_path w of
               Inl e \<Rightarrow> (Uncaught e, w)
             | Inr w1 \<Rightarrow>
                 (case call_extract env file_path w1 of
                    (extraction, w2) \<Rightarrow>
                      (resume_try env u extraction, remove_upload env file_path w2))))"

section \<open>A concrete environment\<close>

text \<open>
  Modelled from the spec: \<^verbatim>\<open>clean_extracted_text\<close> of \<^verbatim>\<open>utils/resume_extractor.py\<close>,
  which is not among the sources. Section 4.3 of the specification: control characters
  are stripped, every run of whitespace becomes one space, and the ends are trimmed.
\<close>

definition is_space :: "char \<Rightarrow> bool" where
  "is_space c = (c \<in> set [CHR 0x20, CHR 0x09, CHR 0x0A, CHR 0x0B, CHR 0x0C, CHR 0x0D])"

definition is_control :: "char \<Rightarrow> bool" where
  "is_control c =
     (let n = (of_char c :: nat) in (n < 32 \<or> n = 127) \<and> \<not> is_space c)"

fun words_of :: "string \<Rightarrow> string \<Rightarrow> string list" where
  "words_of cur [] = (if cur = [] then [] else [cur])"
| "words_of cur (c # cs) =
     (if is_space c then (if cur = [] then words_of [] cs else cur # words_of [] cs)
      else words_of (cur @ [c]) cs)"

definition clean_text_spec :: "string \<Rightarrow> string" where
  "clean_text_spec raw = py_join '' '' (words_of [] (filter (\<lambda>c. \<not> is_control c) raw))"

text \<open>
  Modelled from the spec: \<^verbatim>\<open>extract_resume_text\<close> of \<^verbatim>\<open>utils/resume_extractor.py\<close>,
  which is not among the sources. Section 4.2: the reader is chosen by the extension of
  the path, without case, and a path with another extension yields no text. The readers
  themselves are stood in for by documents whose bytes are their text.
\<close>

definition extract_text_spec :: "string \<Rightarrow> string option \<Rightarrow> string + string option" where
  "extract_text_spec file_path bytes =
     (if file_extension file_path \<in> set allowed_extensions then Inr bytes else Inr None)"

text \<open>Two profiles: one with skills and no e-mail address, one with nothing found.\<close>

definition skilled_profile :: dict where
  "skilled_profile =
     [(''email'', JNull),
      (''skills'', JList [JStr ''python'', JStr ''sql'']),
      (''skills_summary'',
         JObj [(''programming'', JList [JStr ''python'']),
               (''databases'', JList [JStr ''sql''])]),
      (''experience_keywords'', JList [JStr ''experience'', JStr ''years'']),
      (''education_keywords'', JList []),
      (''experience_entries'', JList []),
      (''project_entries'', JList [])]"

definition blank_profile :: dict where
  "blank_profile =
     [(''email'', JNull),
      (''skills'', JList []),
      (''skills_summary'', JObj []),
      (''experience_keywords'', JList []),
      (''education_keywords'', JList []),
      (''experience_entries'', JList []),
      (''project_entries'', JList [])]"

text \<open>
  The environment of the examples: no recommendation service, a disk that never refuses,
  and an analysis that finds the skilled profile in every text that is not empty.
\<close>

definition sample_env :: env where
  "sample_env =
     \<lparr>UPLOAD_FOLDER = ''uploads'',
      clock_ms = 1700000000000,
      extract_resume_text = extract_text_spec,
      clean_extracted_text =
        (\<lambda>t. Inr (clean_text_spec (case t of None \<Rightarrow> [] | Some raw \<Rightarrow> raw))),
      extract_basic_info =
        (\<lambda>clean_text raw. Inr (if clean_text = [] then blank_profile else skilled_profile)),
      gemini_service = None,
      save_error = (\<lambda>p. None),
      remove_error = (\<lambda>p. None)\<rparr>"

text \<open>A recommendation service whose first call fails, and one that answers nothing useful.\<close>

definition failing_gemini :: gemini where
  "failing_gemini =
     \<lparr>generate_career_recommendations = (\<lambda>summary prefs level. Inl ''quota exceeded''),
      suggest_skill_improvements = (\<lambda>skills roles prefs. Inr JNull),
      analyze_resume_gaps = (\<lambda>summary prefs text. Inr JNull),
      generate_learning_path = (\<lambda>skills role pref. Inr JNull)\<rparr>"

definition empty_world :: world where
  "empty_world = \<lparr>disk = (\<lambda>p. None), events = []\<rparr>"

definition no_form :: form where
  "no_form = \<lparr>industries = None, goals = None, location = None\<rparr>"

section \<open>Reading a response\<close>



definition info_of :: "json \<Rightarrow> dict" where
  "info_of b =
     (case b of
        JObj d \<Rightarrow> (case map_of d ''extracted_info'' of Some (JObj info) \<Rightarrow> info | _ \<Rightarrow> [])
      | _ \<Rightarrow> [])"

text \<open>The HTTP status of a result; an uncaught exception has none.\<close>

definition status_of :: "result \<Rightarrow> nat option" where
  "status_of r = (case r of Response st b \<Rightarrow> Some st | Uncaught e \<Rightarrow> None)"


text \<open>
  Whether a profile holds at least one keyword under a key: the set of its keywords is
  not empty. (A string or a dictionary under the key counts by its length, as
  \<^verbatim>\<open>len\<close> does.)
\<close>

definition has_keywords :: "dict \<Rightarrow> string \<Rightarrow> bool" where
  "has_keywords profile k =
     (case dict_get profile k (JList []) of
        JList ks \<Rightarrow> set ks \<noteq> {}
      | JStr s \<Rightarrow> s \<noteq> []
      | JObj d \<Rightarrow> d \<noteq> []
      | _ \<Rightarrow> False)"

section \<open>Unfolding the model on concrete requests\<close>

lemmas handler_defs =
  process_resume_def process_try_def extract_skills_def skills_try_def
  extract_resume_def resume_try_def resume_response_def
  file_save_def call_extract_def remove_upload_def not_text_def
  extracted_info_def process_response_def processing_error_def skills_error_def
  resume_error_def no_text_in_resume_def unsupported_format_def error_body_def
  ai_recommendations_def ai_try_def target_roles_def top_role_def preferences_of_def
  or_not_specified_def opt_json_def generated_name_def
  allowed_extensions_def file_extension_def lower_def lower_char_def splitext_def
  path_join_def rfind_def Let_def dict_get_def str_int_def str_nat.simps digit_char_def

lemmas sample_defs =
  sample_env_def extract_text_spec_def clean_text_spec_def is_space_def is_control_def
  skilled_profile_def blank_profile_def failing_gemini_def empty_world_def no_form_def


section \<open>Lower case and extensions\<close>

text \<open>
  Lower-casing moves neither a dot nor a separator, so it commutes with
  \<^verbatim>\<open>splitext\<close>, and the extension test of \<^verbatim>\<open>/extract-resume\<close> sees the same
  extension for a name and for its lower-case form.
\<close>

lemma lower_char_dot: "(lower_char c = CHR ''.'') = (c = CHR ''.'')"
  by (auto simp: lower_char_def split: if_splits)

lemma lower_char_sep: "(lower_char c = CHR ''/'') = (c = CHR ''/'')"
  by (auto simp: lower_char_def split: if_splits)

lemma lower_char_idem: "lower_char (lower_char c) = lower_char c"
  by (auto simp: lower_char_def split: if_splits)

lemma rfind_from_map:
  assumes "\<And>x. (g x = c) = (x = c)"
  shows "rfind_from i found (map g xs) c = rfind_from i found xs c"
  by (induction xs arbitrary: i found) (simp_all add: assms)

lemma rfind_lower_dot: "rfind (lower p) CHR ''.'' = rfind p CHR ''.''"
  by (simp add: rfind_def lower_def rfind_from_map lower_char_dot)

lemma rfind_lower_sep: "rfind (lower p) CHR ''/'' = rfind p CHR ''/''"
  by (simp add: rfind_def lower_def rfind_from_map lower_char_sep)

lemma filter_dots_lower:
  "(filter (\<lambda>c. c \<noteq> CHR ''.'') (map lower_char xs) = []) = (filter (\<lambda>c. c \<noteq> CHR ''.'') xs = [])"
  by (induction xs) (simp_all add: lower_char_dot)

lemma splitext_lower:
  "splitext (lower p) = (lower (fst (splitext p)), lower (snd (splitext p)))"
  unfolding splitext_def rfind_lower_dot rfind_lower_sep Let_def
  by (simp add: lower_def take_map drop_map filter_dots_lower)

lemma lower_idem: "lower (lower s) = lower s"
  by (simp add: lower_def lower_char_idem)

lemma file_extension_lower: "file_extension (lower name) = file_extension name"
  by (simp add: file_extension_def splitext_lower lower_idem)

lemma lower_Nil_iff: "(lower s = []) = (s = [])"
  by (simp add: lower_def)

lemma unsupported_format_iff:
  "(fst (extract_resume env w (Some u)) = unsupported_format) =
   (filename u \<noteq> [] \<and> file_extension (filename u) \<notin> set allowed_extensions)"
  by (auto simp: extract_resume_def Let_def unsupported_format_def error_body_def
        allowed_extensions_def call_extract_def resume_try_def resume_error_def
        no_text_in_resume_def
      split: sum.splits prod.splits if_splits)

section \<open>The extension gate of /extract-resume\<close>

text \<open>
  C8. \<^verbatim>\<open>/extract-resume\<close> answers "Unsupported file format" for a file name exactly when
  it does so for the lower-case form of the name: upper-case and mixed-case variants of
  an extension are accepted exactly when the lower-case extension is. The answer is the
  same for any bytes of the document, any collaborators and any state of the disk, so
  nothing but the name decides it.
\<close>

theorem extension_gate_ignores_case_and_content:
  "(fst (extract_resume env w (Some \<lparr>filename = name, content = bytes\<rparr>)) = unsupported_format) =
   (fst (extract_resume env' w' (Some \<lparr>filename = lower name, content = bytes'\<rparr>)) =
      unsupported_format)"
  by (simp add: unsupported_format_iff file_extension_lower lower_Nil_iff)

theorem extension_gate_ignores_case_and_content_witness:
  "(fst (extract_resume sample_env empty_world
           (Some \<lparr>filename = ''CV.PDF'', content = ''Python''\<rparr>)) = unsupported_format) =
   (fst (extract_resume sample_env empty_world
           (Some \<lparr>filename = ''cv.pdf'', content = []\<rparr>)) = unsupported_format)"
  using extension_gate_ignores_case_and_content
    [of sample_env empty_world "''CV.PDF''" "''Python''" sample_env empty_world "[]"]
  by (simp add: lower_def lower_char_def)

section \<open>The handlers after a successful save\<close>

text \<open>
  Once the upload is saved, each handler answers with what its \<^verbatim>\<open>try\<close> block makes
  of the extraction, and leaves the world its \<^verbatim>\<open>finally\<close> block produces.
\<close>

lemma file_save_ok:
  "save_error env p = None \<Longrightarrow>
   file_save env u p w =
     Inr (w\<lparr>disk := (disk w)(p \<mapsto> content u), events := events w @ [SaveFile p]\<rparr>)"
  by (simp add: file_save_def)

lemma process_resume_saved:
  assumes "filename u \<noteq> []"
    and "save_error env (path_join (UPLOAD_FOLDER env) (filename u)) = None"
  shows "process_resume env w (Some u) f =
     (process_try env f
        (extract_resume_text env (path_join (UPLOAD_FOLDER env) (filename u)) (Some (content u))),
      remove_upload env (path_join (UPLOAD_FOLDER env) (filename u))
        (w\<lparr>disk := (disk w)(path_join (UPLOAD_FOLDER env) (filename u) \<mapsto> content u),
           events := events w @
             [SaveFile (path_join (UPLOAD_FOLDER env) (filename u)),
              ExtractText (path_join (UPLOAD_FOLDER env) (filename u))]\<rparr>))"
  using assms by (simp add: process_resume_def Let_def file_save_ok call_extract_def)

lemma extract_skills_saved:
  assumes "filename u \<noteq> []"
    and "save_error env (path_join (UPLOAD_FOLDER env) (generated_name env)) = None"
  shows "extract_skills env w (Some u) =
     (skills_try env
        (extract_resume_text env (path_join (UPLOAD_FOLDER env) (generated_name env))
           (Some (content u))),
      remove_upload env (path_join (UPLOAD_FOLDER env) (generated_name env))
        (w\<lparr>disk := (disk w)(path_join (UPLOAD_FOLDER env) (generated_name env) \<mapsto> content u),
           events := events w @
             [SaveFile (path_join (UPLOAD_FOLDER env) (generated_name env)),
              ExtractText (path_join (UPLOAD_FOLDER env) (generated_name env))]\<rparr>))"
  using assms by (simp add: extract_skills_def Let_def file_save_ok call_extract_def)

lemma extract_resume_saved:
  assumes "filename u \<noteq> []"
    and "file_extension (filename u) \<in> set allowed_extensions"
    and "save_error env (path_join (UPLOAD_FOLDER env) (filename u)) = None"
  shows "extract_resume env w (Some u) =
     (resume_try env u
        (extract_resume_text env (path_join (UPLOAD_FOLDER env) (filename u)) (Some (content u))),
      remove_upload env (path_join (UPLOAD_FOLDER env) (filename u))
        (w\<lparr>disk := (disk w)(path_join (UPLOAD_FOLDER env) (filename u) \<mapsto> content u),
           events := events w @
             [SaveFile (path_join (UPLOAD_FOLDER env) (filename u)),
              ExtractText (path_join (UPLOAD_FOLDER env) (filename u))]\<rparr>))"
  using assms by (simp add: extract_resume_def Let_def file_save_ok call_extract_def)






lemma process_try_200:
  assumes "process_try env f x = Response 200 body"
  shows "\<exists>t ct bi info.
           x = Inr t \<and> \<not> not_text t \<and> clean_extracted_text env t = Inr ct \<and>
           extract_basic_info env ct t = Inr bi \<and> extracted_info ct bi = Inr info \<and>
           body = process_response f info
                    (ai_recommendations (gemini_service env) bi (preferences_of f) ct)"
  using assms
  by (auto simp: process_try_def Let_def processing_error_def split: sum.splits if_splits)

lemma process_resume_200:
  assumes "fst (process_resume env w file f) = Response 200 body"
  shows "\<exists>u. file = Some u \<and> filename u \<noteq> [] \<and>
           save_error env (path_join (UPLOAD_FOLDER env) (filename u)) = None \<and>
           process_try env f
             (extract_resume_text env (path_join (UPLOAD_FOLDER env) (filename u))
                (Some (content u))) = Response 200 body"
  using assms
  by (auto simp: process_resume_def Let_def file_save_def call_extract_def error_body_def
      split: option.splits if_splits sum.splits)


section \<open>Unsupported formats\<close>

text \<open>
  C1, as the code has it. \<^verbatim>\<open>/extract-resume\<close> rejects every upload whose lower-cased
  extension is not \<^verbatim>\<open>.pdf\<close>, \<^verbatim>\<open>.docx\<close> or \<^verbatim>\<open>.doc\<close> with the answer
  "Unsupported file format", and the world is untouched: nothing was saved and
  \<^verbatim>\<open>extract_resume_text\<close> was not called.
\<close>

theorem extract_resume_rejects_before_extraction:
  assumes "filename u \<noteq> []"
    and "file_extension (filename u) \<notin> set allowed_extensions"
  shows "extract_resume env w (Some u) = (unsupported_format, w)"
  using assms by (simp add: extract_resume_def)

theorem extract_resume_rejects_before_extraction_witness:
  "extract_resume sample_env empty_world (Some \<lparr>filename = ''cv.txt'', content = ''Python''\<rparr>) =
     (unsupported_format, empty_world)"
proof -
  have name: "filename \<lparr>filename = ''cv.txt'', content = ''Python''\<rparr> \<noteq> []"
    by simp
  have ext: "file_extension (filename \<lparr>filename = ''cv.txt'', content = ''Python''\<rparr>)
               \<notin> set allowed_extensions"
    by (simp add: file_extension_def splitext_def rfind_def lower_def lower_char_def
          allowed_extensions_def)
  show ?thesis
    by (rule extract_resume_rejects_before_extraction [OF name ext])
qed

text \<open>
  C1 as stated fails for the two other handlers. \<^verbatim>\<open>/process\<close> has no test of the
  extension: an upload \<^verbatim>\<open>cv.txt\<close> is saved and handed to \<^verbatim>\<open>extract_resume_text\<close>, and
  the answer is "Could not extract text" when that returns nothing. \<^verbatim>\<open>/extract-skills\<close>
  never reads the name of the upload: the same upload is saved under a generated
  \<^verbatim>\<open>.pdf\<close> name, extracted and answered with status 200.
\<close>

theorem other_endpoints_extract_unsupported_upload:
  "file_extension ''cv.txt'' \<notin> set allowed_extensions \<and>
   process_resume sample_env empty_world
       (Some \<lparr>filename = ''cv.txt'', content = ''Python''\<rparr>) no_form =
     (Response 400 (error_body ''Could not extract text from resume''),
      \<lparr>disk = (\<lambda>p. None),
        events = [SaveFile ''uploads/cv.txt'', ExtractText ''uploads/cv.txt'',
                  RemoveFile ''uploads/cv.txt'']\<rparr>) \<and>
   events (snd (extract_skills sample_env empty_world
       (Some \<lparr>filename = ''cv.txt'', content = ''Python''\<rparr>))) =
     [SaveFile ''uploads/resume-1700000000000.pdf'',
      ExtractText ''uploads/resume-1700000000000.pdf'',
      RemoveFile ''uploads/resume-1700000000000.pdf''] \<and>
   status_of (fst (extract_skills sample_env empty_world
       (Some \<lparr>filename = ''cv.txt'', content = ''Python''\<rparr>))) = Some 200"
proof -
  have a: "file_extension ''cv.txt'' \<notin> set allowed_extensions"
    by (simp add: file_extension_def splitext_def rfind_def lower_def lower_char_def
          allowed_extensions_def)
  have b: "process_resume sample_env empty_world
       (Some \<lparr>filename = ''cv.txt'', content = ''Python''\<rparr>) no_form =
     (Response 400 (error_body ''Could not extract text from resume''),
      \<lparr>disk = (\<lambda>p. None),
        events = [SaveFile ''uploads/cv.txt'', ExtractText ''uploads/cv.txt'',
                  RemoveFile ''uploads/cv.txt'']\<rparr>)"
    by (simp add: handler_defs sample_defs fun_eq_iff)
  have c: "extract_skills sample_env empty_world
       (Some \<lparr>filename = ''cv.txt'', content = ''Python''\<rparr>) =
     (skills_try sample_env (Inr (Some ''Python'')),
      \<lparr>disk = (\<lambda>p. None),
        events = [SaveFile ''uploads/resume-1700000000000.pdf'',
                  ExtractText ''uploads/resume-1700000000000.pdf'',
                  RemoveFile ''uploads/resume-1700000000000.pdf'']\<rparr>)"
    by (simp add: extract_skills_def file_save_def call_extract_def remove_upload_def
          generated_name_def allowed_extensions_def file_extension_def lower_def
          lower_char_def splitext_def path_join_def rfind_def Let_def str_int_def
          str_nat.simps digit_char_def sample_defs fun_eq_iff)
  have d: "status_of (skills_try sample_env (Inr (Some ''Python''))) = Some 200"
    by (simp add: skills_try_def dict_get_def status_of_def sample_defs)
  show ?thesis
    using a b c d by simp
qed

section \<open>Empty text\<close>

text \<open>
  C2 as stated fails: the handlers test the raw text, before it is cleaned. A document
  whose raw text is two spaces passes the test, its cleaned text is empty, and both
  \<^verbatim>\<open>/process\<close> and \<^verbatim>\<open>/extract-resume\<close> answer with status 200.
\<close>

theorem whitespace_only_text_is_processed:
  "extract_resume_text sample_env ''uploads/cv.pdf'' (Some ''  '') = Inr (Some ''  '') \<and>
   clean_extracted_text sample_env (Some ''  '') = Inr [] \<and>
   fst (process_resume sample_env empty_world
          (Some \<lparr>filename = ''cv.pdf'', content = ''  ''\<rparr>) no_form) =
     Response 200
       (process_response no_form
          [(''text_length'', JNum 0), (''email'', JNull), (''detected_skills'', JList []),
           (''skills_by_category'', JObj []), (''total_skills_found'', JNum 0),
           (''has_experience_keywords'', JBool False),
           (''has_education_keywords'', JBool False),
           (''experience_entries'', JList []), (''project_entries'', JList []),
           (''experience_keywords'', JList [])]
          []) \<and>
   status_of (fst (extract_resume sample_env empty_world
          (Some \<lparr>filename = ''cv.pdf'', content = ''  ''\<rparr>))) = Some 200"
proof -
  have a: "extract_resume_text sample_env ''uploads/cv.pdf'' (Some ''  '') = Inr (Some ''  '')"
    by (simp add: sample_defs allowed_extensions_def file_extension_def lower_def
          lower_char_def splitext_def rfind_def)
  have b: "clean_extracted_text sample_env (Some ''  '') = Inr []"
    by (simp add: sample_defs)
  have c: "fst (process_resume sample_env empty_world
          (Some \<lparr>filename = ''cv.pdf'', content = ''  ''\<rparr>) no_form) =
     Response 200
       (process_response no_form
          [(''text_length'', JNum 0), (''email'', JNull), (''detected_skills'', JList []),
           (''skills_by_category'', JObj []), (''total_skills_found'', JNum 0),
           (''has_experience_keywords'', JBool False),
           (''has_education_keywords'', JBool False),
           (''experience_entries'', JList []), (''project_entries'', JList []),
           (''experience_keywords'', JList [])]
          [])"
    by (simp add: handler_defs sample_defs)
  have d: "status_of (fst (extract_resume sample_env empty_world
          (Some \<lparr>filename = ''cv.pdf'', content = ''  ''\<rparr>))) = Some 200"
    by (simp add: handler_defs sample_defs status_of_def)
  show ?thesis
    using a b c d by simp
qed

lemma resume_try_no_text:
  "(resume_try env u (Inr t) = no_text_in_resume) = not_text t"
  by (auto simp: resume_try_def no_text_in_resume_def resume_error_def error_body_def
      split: sum.splits)

lemma process_try_no_text:
  "(process_try env f (Inr t) =
      Response 400 (error_body ''Could not extract text from resume'')) = not_text t"
  by (auto simp: process_try_def processing_error_def error_body_def Let_def
      split: sum.splits)

text \<open>
  C2, as the code has it. When \<^verbatim>\<open>extract_resume_text\<close> returns, \<^verbatim>\<open>/process\<close> and
  \<^verbatim>\<open>/extract-resume\<close> answer with their "Could not extract text" rejection exactly when
  the raw text is \<^verbatim>\<open>None\<close> or the empty string.
\<close>

theorem empty_raw_text_is_rejected:
  assumes "filename u \<noteq> []"
    and "save_error env (path_join (UPLOAD_FOLDER env) (filename u)) = None"
    and "extract_resume_text env (path_join (UPLOAD_FOLDER env) (filename u))
           (Some (content u)) = Inr t"
  shows "((fst (process_resume env w (Some u) f) =
             Response 400 (error_body ''Could not extract text from resume'')) = not_text t) \<and>
         (file_extension (filename u) \<in> set allowed_extensions \<longrightarrow>
            (fst (extract_resume env w (Some u)) = no_text_in_resume) = not_text t)"
  using assms
  by (simp add: process_resume_saved extract_resume_saved process_try_no_text
        resume_try_no_text)

theorem empty_raw_text_is_rejected_witness:
  "fst (process_resume (sample_env\<lparr>extract_resume_text := (\<lambda>p bytes. Inr (Some []))\<rparr>)
          empty_world (Some \<lparr>filename = ''scan.pdf'', content = ''scanned''\<rparr>) no_form) =
     Response 400 (error_body ''Could not extract text from resume'') \<and>
   fst (extract_resume (sample_env\<lparr>extract_resume_text := (\<lambda>p bytes. Inr (Some []))\<rparr>)
          empty_world (Some \<lparr>filename = ''scan.pdf'', content = ''scanned''\<rparr>)) =
     no_text_in_resume"
proof -
  let ?env = "sample_env\<lparr>extract_resume_text := (\<lambda>p bytes. Inr (Some []))\<rparr>"
  let ?u = "\<lparr>filename = ''scan.pdf'', content = ''scanned''\<rparr>"
  have name: "filename ?u \<noteq> []"
    by simp
  have saved: "save_error ?env (path_join (UPLOAD_FOLDER ?env) (filename ?u)) = None"
    by (simp add: sample_env_def)
  have extracted: "extract_resume_text ?env (path_join (UPLOAD_FOLDER ?env) (filename ?u))
                (Some (content ?u)) = Inr (Some [])"
    by simp
  have ext: "file_extension (filename ?u) \<in> set allowed_extensions"
    by (simp add: file_extension_def splitext_def rfind_def lower_def lower_char_def
          allowed_extensions_def)
  from empty_raw_text_is_rejected [OF name saved extracted, of empty_world no_form] ext
  show ?thesis
    by (simp add: not_text_def)
qed

section \<open>The successful answer of /process\<close>


lemma info_of_process_response: "info_of (process_response f info ai) = info"
  by (simp add: info_of_def process_response_def)


lemma process_resume_200_profile:
  assumes "fst (process_resume env w file f) = Response 200 body"
  shows "\<exists>u raw ct bi info.
           file = Some u \<and> filename u \<noteq> [] \<and>
           extract_resume_text env (path_join (UPLOAD_FOLDER env) (filename u))
             (Some (content u)) = Inr (Some raw) \<and>
           raw \<noteq> [] \<and>
           clean_extracted_text env (Some raw) = Inr ct \<and>
           extract_basic_info env ct (Some raw) = Inr bi \<and>
           extracted_info ct bi = Inr info \<and>
           body = process_response f info
                    (ai_recommendations (gemini_service env) bi (preferences_of f) ct)"
proof -
  from process_resume_200 [OF assms] obtain u where u: "file = Some u" "filename u \<noteq> []"
    and tried: "process_try env f
             (extract_resume_text env (path_join (UPLOAD_FOLDER env) (filename u))
                (Some (content u))) = Response 200 body"
    by blast
  from process_try_200 [OF tried] obtain t ct bi info where
    t: "extract_resume_text env (path_join (UPLOAD_FOLDER env) (filename u))
          (Some (content u)) = Inr t" "\<not> not_text t"
    and rest: "clean_extracted_text env t = Inr ct" "extract_basic_info env ct t = Inr bi"
      "extracted_info ct bi = Inr info"
      "body = process_response f info
                (ai_recommendations (gemini_service env) bi (preferences_of f) ct)"
    by blast
  from t(2) obtain raw where raw: "t = Some raw" "raw \<noteq> []"
    by (auto simp: not_text_def split: option.splits)
  show ?thesis
    using u t(1) raw rest by blast
qed


lemma sample_process_python:
  "fst (process_resume sample_env empty_world
          (Some \<lparr>filename = ''cv.pdf'', content = ''Python''\<rparr>) no_form) =
     Response 200
       (process_response no_form
          [(''text_length'', JNum 6), (''email'', JNull),
           (''detected_skills'', JList [JStr ''python'', JStr ''sql'']),
           (''skills_by_category'',
              JObj [(''programming'', JList [JStr ''python'']),
                    (''databases'', JList [JStr ''sql''])]),
           (''total_skills_found'', JNum 2),
           (''has_experience_keywords'', JBool True),
           (''has_education_keywords'', JBool False),
           (''experience_entries'', JList []), (''project_entries'', JList []),
           (''experience_keywords'', JList [JStr ''experience'', JStr ''years''])]
          [])"
  by (simp add: handler_defs sample_defs)



section \<open>The keyword flags\<close>

lemma py_len_has_keywords:
  "py_len (dict_get bi k (JList [])) = Inr n \<Longrightarrow> (0 < n) = has_keywords bi k"
  by (cases "dict_get bi k (JList [])") (auto simp: has_keywords_def)

lemma extracted_info_flags:
  assumes "extracted_info ct bi = Inr info"
  shows "map_of info ''has_experience_keywords'' =
           Some (JBool (has_keywords bi ''experience_keywords''))"
    and "map_of info ''has_education_keywords'' =
           Some (JBool (has_keywords bi ''education_keywords''))"
  using assms
  by (auto simp: extracted_info_def py_len_has_keywords split: sum.splits)

text \<open>
  C6. In every response of \<^verbatim>\<open>/process\<close> with status 200, \<^verbatim>\<open>has_experience_keywords\<close>
  and \<^verbatim>\<open>has_education_keywords\<close> are true exactly when the profile that
  \<^verbatim>\<open>extract_basic_info\<close> returned for this upload holds at least one keyword under
  \<^verbatim>\<open>experience_keywords\<close>, respectively \<^verbatim>\<open>education_keywords\<close>: the flags are a function
  of the set of keywords found, not of how many times one was found.
\<close>

theorem keyword_flags_follow_presence:
  assumes "fst (process_resume env w file f) = Response 200 body"
  shows "\<exists>u raw ct bi.
           file = Some u \<and>
           extract_resume_text env (path_join (UPLOAD_FOLDER env) (filename u))
             (Some (content u)) = Inr (Some raw) \<and>
           clean_extracted_text env (Some raw) = Inr ct \<and>
           extract_basic_info env ct (Some raw) = Inr bi \<and>
           map_of (info_of body) ''has_experience_keywords'' =
             Some (JBool (has_keywords bi ''experience_keywords'')) \<and>
           map_of (info_of body) ''has_education_keywords'' =
             Some (JBool (has_keywords bi ''education_keywords''))"
proof -
  from process_resume_200_profile [OF assms] obtain u raw ct bi info where
    facts: "file = Some u"
      "extract_resume_text env (path_join (UPLOAD_FOLDER env) (filename u))
         (Some (content u)) = Inr (Some raw)"
      "clean_extracted_text env (Some raw) = Inr ct"
      "extract_basic_info env ct (Some raw) = Inr bi"
    and info: "extracted_info ct bi = Inr info"
    and body: "body = process_response f info
                 (ai_recommendations (gemini_service env) bi (preferences_of f) ct)"
    by blast
  have "info_of body = info"
    by (simp add: body info_of_process_response)
  with facts extracted_info_flags [OF info] show ?thesis
    by blast
qed


theorem keyword_flags_follow_presence_witness:
  "\<exists>u raw ct bi.
     Some \<lparr>filename = ''cv.pdf'', content = ''Python''\<rparr> = Some u \<and>
     extract_resume_text sample_env (path_join (UPLOAD_FOLDER sample_env) (filename u))
       (Some (content u)) = Inr (Some raw) \<and>
     clean_extracted_text sample_env (Some raw) = Inr ct \<and>
     extract_basic_info sample_env ct (Some raw) = Inr bi \<and>
     map_of (info_of (process_response no_form
          [(''text_length'', JNum 6), (''email'', JNull),
           (''detected_skills'', JList [JStr ''python'', JStr ''sql'']),
           (''skills_by_category'',
              JObj [(''programming'', JList [JStr ''python'']),
                    (''databases'', JList [JStr ''sql''])]),
           (''total_skills_found'', JNum 2),
           (''has_experience_keywords'', JBool True),
           (''has_education_keywords'', JBool False),
           (''experience_entries'', JList []), (''project_entries'', JList []),
           (''experience_keywords'', JList [JStr ''experience'', JStr ''years''])]
          [])) ''has_experience_keywords'' =
       Some (JBool (has_keywords bi ''experience_keywords'')) \<and>
     map_of (info_of (process_response no_form
          [(''text_length'', JNum 6), (''email'', JNull),
           (''detected_skills'', JList [JStr ''python'', JStr ''sql'']),
           (''skills_by_category'',
              JObj [(''programming'', JList [JStr ''python'']),
                    (''databases'', JList [JStr ''sql''])]),
           (''total_skills_found'', JNum 2),
           (''has_experience_keywords'', JBool True),
           (''has_education_keywords'', JBool False),
           (''experience_entries'', JList []), (''project_entries'', JList []),
           (''experience_keywords'', JList [JStr ''experience'', JStr ''years''])]
          [])) ''has_education_keywords'' =
       Some (JBool (has_keywords bi ''education_keywords''))"
  by (rule keyword_flags_follow_presence [OF sample_process_python])

section \<open>Partial profiles\<close>






section \<open>The recommendation service\<close>






section \<open>Exceptions inside the try blocks\<close>








section \<open>The extension of a generated path\<close>

text \<open>
  \<^verbatim>\<open>rfind\<close> over an appended string, and \<^verbatim>\<open>splitext\<close> of a path that ends in a file
  name, a dot and an extension without dots.
\<close>

lemma rfind_from_append:
  "rfind_from i found (xs @ ys) c =
     rfind_from (i + int (length xs)) (rfind_from i found xs c) ys c"
  by (induction xs arbitrary: i found) (simp_all add: algebra_simps)

lemma rfind_from_absent: "c \<notin> set xs \<Longrightarrow> rfind_from i found xs c = found"
  by (induction xs arbitrary: i) auto

lemma rfind_from_range:
  "rfind_from i found xs c = found \<or>
   (i \<le> rfind_from i found xs c \<and> rfind_from i found xs c < i + int (length xs))"
proof (induction xs arbitrary: i found)
  case Nil
  then show ?case by simp
next
  case (Cons x xs)
  from Cons.IH [of "i + 1" "if x = c then i else found"] show ?case
    by (auto split: if_splits)
qed

lemma rfind_range: "- 1 \<le> rfind s c \<and> rfind s c < int (length s)"
  using rfind_from_range [of 0 "- 1" s c] by (auto simp: rfind_def)

lemma splitext_with_extension:
  assumes "CHR ''/'' \<notin> set name"
    and "filter (\<lambda>c. c \<noteq> CHR ''.'') name \<noteq> []"
    and "CHR ''.'' \<notin> set ext"
    and "CHR ''/'' \<notin> set ext"
  shows "splitext (pre @ name @ CHR ''.'' # ext) = (pre @ name, CHR ''.'' # ext)"
proof -
  let ?p = "pre @ name @ CHR ''.'' # ext"
  have dot: "rfind ?p CHR ''.'' = int (length (pre @ name))"
    using assms(3)
    by (simp add: rfind_def rfind_from_append rfind_from_absent del: append_assoc
          flip: append_assoc)
  have sep: "rfind ?p CHR ''/'' = rfind pre CHR ''/''"
    using assms(1) assms(4) by (simp add: rfind_def rfind_from_append rfind_from_absent)
  define k where "k = nat (rfind pre CHR ''/'' + 1)"
  have k: "k \<le> length pre" "int k = rfind pre CHR ''/'' + 1"
    using rfind_range [of pre "CHR ''/''"] by (auto simp: k_def)
  have between: "take (nat (int (length (pre @ name)) - (rfind pre CHR ''/'' + 1))) (drop k ?p) =
          drop k pre @ name"
    using k by (simp add: nat_diff_distrib' flip: k(2))
  have some: "filter (\<lambda>c. c \<noteq> CHR ''.'')
          (take (nat (int (length (pre @ name)) - (rfind pre CHR ''/'' + 1))) (drop k ?p)) \<noteq> []"
    unfolding between using assms(2) by simp
  have less: "rfind pre CHR ''/'' < int (length (pre @ name))"
    using rfind_range [of pre "CHR ''/''"] by simp
  show ?thesis
    unfolding splitext_def Let_def dot sep
    using some less by (simp add: k_def del: filter_append)
qed

lemma digit_char_in: "d < 10 \<Longrightarrow> digit_char d \<in> set ''0123456789''"
  unfolding digit_char_def by (rule nth_mem) simp

lemma str_nat_digits: "set (str_nat n) \<subseteq> set ''0123456789''"
proof (induction n rule: str_nat.induct)
  case (1 n)
  show ?case
  proof (cases "n < 10")
    case True
    then show ?thesis
      using digit_char_in [of n] by (subst str_nat.simps) simp
  next
    case False
    with "1" have "set (str_nat (n div 10)) \<subseteq> set ''0123456789''"
      by simp
    moreover have "digit_char (n mod 10) \<in> set ''0123456789''"
      by (rule digit_char_in) simp
    ultimately show ?thesis
      using False by (subst str_nat.simps) simp
  qed
qed

lemma str_int_chars: "CHR ''/'' \<notin> set (str_int i)" "CHR ''.'' \<notin> set (str_int i)"
  using str_nat_digits [of "nat i"] str_nat_digits [of "nat (- i)"]
  by (auto simp: str_int_def)

lemma generated_path_extension:
  "splitext (path_join (UPLOAD_FOLDER env) (generated_name env)) =
     (if UPLOAD_FOLDER env = [] \<or> last (UPLOAD_FOLDER env) = CHR ''/''
      then UPLOAD_FOLDER env @ ''resume-'' @ str_int (clock_ms env)
      else UPLOAD_FOLDER env @ ''/'' @ ''resume-'' @ str_int (clock_ms env),
      ''.pdf'')"
proof -
  have name: "CHR ''/'' \<notin> set (''resume-'' @ str_int (clock_ms env))"
    "filter (\<lambda>c. c \<noteq> CHR ''.'') (''resume-'' @ str_int (clock_ms env)) \<noteq> []"
    using str_int_chars [of "clock_ms env"] by simp_all
  have ext: "CHR ''.'' \<notin> set ''pdf''" "CHR ''/'' \<notin> set ''pdf''"
    by simp_all
  have a: "splitext (pre @ (''resume-'' @ str_int (clock_ms env)) @ CHR ''.'' # ''pdf'') =
             (pre @ ''resume-'' @ str_int (clock_ms env), ''.pdf'')" for pre
    using splitext_with_extension [OF name ext, of pre] by simp
  show ?thesis
    using a [of "UPLOAD_FOLDER env"] a [of "UPLOAD_FOLDER env @ ''/''"]
    by (simp add: path_join_def generated_name_def)
qed

section \<open>What a request leaves on the disk\<close>

lemma saved_then_removed:
  "events (remove_upload env p
     (w\<lparr>disk := (disk w)(p \<mapsto> bytes), events := events w @ [SaveFile p, ExtractText p]\<rparr>)) =
     events w @ [SaveFile p, ExtractText p, RemoveFile p]"
  "disk (remove_upload env p
     (w\<lparr>disk := (disk w)(p \<mapsto> bytes), events := events w @ [SaveFile p, ExtractText p]\<rparr>)) p =
     (if remove_error env p = None then None else Some bytes)"
  by (simp_all add: remove_upload_def split: option.splits)

lemma extract_skills_ignores_filename:
  "filename u \<noteq> [] \<Longrightarrow> name \<noteq> [] \<Longrightarrow>
   extract_skills env w (Some (u\<lparr>filename := name\<rparr>)) = extract_skills env w (Some u)"
  by (simp add: extract_skills_def file_save_def Let_def split: option.splits)

text \<open>
  C10. \<^verbatim>\<open>/extract-skills\<close> stores every upload under the name
  \<^verbatim>\<open>resume-<milliseconds>.pdf\<close> in the upload folder: the extension of that path is
  \<^verbatim>\<open>.pdf\<close>, the upload is saved there and \<^verbatim>\<open>extract_resume_text\<close> is called on that
  path with the bytes of the upload, and the name of the upload plays no part, so the
  handler does the same for \<^verbatim>\<open>cv.docx\<close> as for \<^verbatim>\<open>cv.pdf\<close>.
\<close>

theorem extract_skills_stores_upload_as_pdf:
  assumes "filename u \<noteq> []"
  shows
    "generated_name env = ''resume-'' @ str_int (clock_ms env) @ ''.pdf'' \<and>
     (let p = path_join (UPLOAD_FOLDER env) (generated_name env)
      in snd (splitext p) = ''.pdf'' \<and>
         (save_error env p = None \<longrightarrow>
            fst (extract_skills env w (Some u)) =
              skills_try env (extract_resume_text env p (Some (content u))) \<and>
            events (snd (extract_skills env w (Some u))) =
              events w @ [SaveFile p, ExtractText p, RemoveFile p])) \<and>
     (\<forall>name. name \<noteq> [] \<longrightarrow>
        extract_skills env w (Some (u\<lparr>filename := name\<rparr>)) = extract_skills env w (Some u))"
proof (intro conjI)
  show "generated_name env = ''resume-'' @ str_int (clock_ms env) @ ''.pdf''"
    by (rule generated_name_def)
next
  show "let p = path_join (UPLOAD_FOLDER env) (generated_name env)
      in snd (splitext p) = ''.pdf'' \<and>
         (save_error env p = None \<longrightarrow>
            fst (extract_skills env w (Some u)) =
              skills_try env (extract_resume_text env p (Some (content u))) \<and>
            events (snd (extract_skills env w (Some u))) =
              events w @ [SaveFile p, ExtractText p, RemoveFile p])"
    using assms
    by (simp add: Let_def generated_path_extension extract_skills_saved saved_then_removed)
next
  show "\<forall>name. name \<noteq> [] \<longrightarrow>
        extract_skills env w (Some (u\<lparr>filename := name\<rparr>)) = extract_skills env w (Some u)"
    using assms by (simp add: extract_skills_ignores_filename)
qed

theorem extract_skills_stores_upload_as_pdf_witness:
  "snd (splitext ''uploads/resume-1700000000000.pdf'') = ''.pdf'' \<and>
   events (snd (extract_skills sample_env empty_world
                  (Some \<lparr>filename = ''cv.docx'', content = ''Python''\<rparr>))) =
     [SaveFile ''uploads/resume-1700000000000.pdf'',
      ExtractText ''uploads/resume-1700000000000.pdf'',
      RemoveFile ''uploads/resume-1700000000000.pdf''] \<and>
   extract_skills sample_env empty_world (Some \<lparr>filename = ''cv.pdf'', content = ''Python''\<rparr>) =
     extract_skills sample_env empty_world (Some \<lparr>filename = ''cv.docx'', content = ''Python''\<rparr>)"
proof -
  let ?u = "\<lparr>filename = ''cv.docx'', content = ''Python''\<rparr>"
  have a: "filename ?u \<noteq> []"
    by simp
  have p: "path_join (UPLOAD_FOLDER sample_env) (generated_name sample_env) =
           ''uploads/resume-1700000000000.pdf''"
    by (simp add: sample_env_def path_join_def generated_name_def str_int_def str_nat.simps
          digit_char_def)
  have saved: "save_error sample_env q = None" for q
    by (simp add: sample_env_def)
  have renamed: "?u\<lparr>filename := ''cv.pdf''\<rparr> = \<lparr>filename = ''cv.pdf'', content = ''Python''\<rparr>"
    by simp
  have pdf: "''cv.pdf'' \<noteq> []"
    by simp
  note inst = extract_skills_stores_upload_as_pdf [OF a, of sample_env empty_world,
      unfolded Let_def p]
  note ext = inst [THEN conjunct2, THEN conjunct1, THEN conjunct1]
  note ev = inst [THEN conjunct2, THEN conjunct1, THEN conjunct2, THEN mp, OF saved,
      THEN conjunct2]
  note same = inst [THEN conjunct2, THEN conjunct2, THEN spec, THEN mp, OF pdf]
  have start: "events empty_world = []"
    by (simp add: empty_world_def)
  show ?thesis
    using ext ev same unfolding renamed start by simp
qed

text \<open>
  C9, as the code has it. In each of the three handlers, a request whose upload was saved
  ends with the call of \<^verbatim>\<open>os.remove\<close> on the saved path, whatever the answer is; the
  file is gone when \<^verbatim>\<open>os.remove\<close> does not raise, and it is still there when it does.
\<close>

theorem upload_removal_is_attempted_on_every_path:
  assumes "filename u \<noteq> []"
  shows
    "(let p = path_join (UPLOAD_FOLDER env) (filename u);
          w' = snd (process_resume env w (Some u) f)
      in save_error env p = None \<longrightarrow>
           events w' = events w @ [SaveFile p, ExtractText p, RemoveFile p] \<and>
           disk w' p = (if remove_error env p = None then None else Some (content u))) \<and>
     (let p = path_join (UPLOAD_FOLDER env) (generated_name env);
          w' = snd (extract_skills env w (Some u))
      in save_error env p = None \<longrightarrow>
           events w' = events w @ [SaveFile p, ExtractText p, RemoveFile p] \<and>
           disk w' p = (if remove_error env p = None then None else Some (content u))) \<and>
     (let p = path_join (UPLOAD_FOLDER env) (filename u);
          w' = snd (extract_resume env w (Some u))
      in file_extension (filename u) \<in> set allowed_extensions \<longrightarrow>
         save_error env p = None \<longrightarrow>
           events w' = events w @ [SaveFile p, ExtractText p, RemoveFile p] \<and>
           disk w' p = (if remove_error env p = None then None else Some (content u)))"
  using assms
  by (simp add: Let_def process_resume_saved extract_skills_saved extract_resume_saved
        saved_then_removed)

theorem upload_removal_is_attempted_on_every_path_witness:
  "events (snd (process_resume sample_env empty_world
                  (Some \<lparr>filename = ''cv.pdf'', content = ''Python''\<rparr>) no_form)) =
     [SaveFile ''uploads/cv.pdf'', ExtractText ''uploads/cv.pdf'', RemoveFile ''uploads/cv.pdf''] \<and>
   disk (snd (process_resume sample_env empty_world
                (Some \<lparr>filename = ''cv.pdf'', content = ''Python''\<rparr>) no_form))
     ''uploads/cv.pdf'' = None \<and>
   disk (snd (extract_skills sample_env empty_world
                (Some \<lparr>filename = ''cv.pdf'', content = ''Python''\<rparr>)))
     ''uploads/resume-1700000000000.pdf'' = None \<and>
   disk (snd (extract_resume sample_env empty_world
                (Some \<lparr>filename = ''cv.pdf'', content = ''Python''\<rparr>)))
     ''uploads/cv.pdf'' = None"
proof -
  let ?u = "\<lparr>filename = ''cv.pdf'', content = ''Python''\<rparr>"
  have a: "filename ?u \<noteq> []"
    by simp
  have p: "path_join (UPLOAD_FOLDER sample_env) (filename ?u) = ''uploads/cv.pdf''"
    by (simp add: sample_env_def path_join_def)
  have q: "path_join (UPLOAD_FOLDER sample_env) (generated_name sample_env) =
             ''uploads/resume-1700000000000.pdf''"
    by (simp add: sample_env_def path_join_def generated_name_def str_int_def str_nat.simps
          digit_char_def)
  have saved: "save_error sample_env x = None" "remove_error sample_env x = None" for x
    by (simp_all add: sample_env_def)
  have ext: "file_extension (filename ?u) \<in> set allowed_extensions"
    by (simp add: file_extension_def splitext_def rfind_def lower_def lower_char_def
          allowed_extensions_def)
  from upload_removal_is_attempted_on_every_path [OF a, of sample_env empty_world no_form]
  show ?thesis
    unfolding Let_def p q using saved ext by (simp add: empty_world_def)
qed

text \<open>
  C9 as stated fails when \<^verbatim>\<open>os.remove\<close> raises: the handler prints a warning, answers
  with status 200, and the upload is still on the disk.
\<close>

theorem upload_stays_when_remove_raises:
  "status_of (fst (process_resume
       (sample_env\<lparr>remove_error := (\<lambda>p. Some ''Permission denied'')\<rparr>) empty_world
       (Some \<lparr>filename = ''cv.pdf'', content = ''Python''\<rparr>) no_form)) = Some 200 \<and>
   disk (snd (process_resume
       (sample_env\<lparr>remove_error := (\<lambda>p. Some ''Permission denied'')\<rparr>) empty_world
       (Some \<lparr>filename = ''cv.pdf'', content = ''Python''\<rparr>) no_form))
     ''uploads/cv.pdf'' = Some ''Python'' \<and>
   events (snd (process_resume
       (sample_env\<lparr>remove_error := (\<lambda>p. Some ''Permission denied'')\<rparr>) empty_world
       (Some \<lparr>filename = ''cv.pdf'', content = ''Python''\<rparr>) no_form)) =
     [SaveFile ''uploads/cv.pdf'', ExtractText ''uploads/cv.pdf'', RemoveFile ''uploads/cv.pdf'']"
  by (simp add: handler_defs sample_defs status_of_def)

end
